theory Spec2Isabelle
  imports Main
begin

section \<open>Go values as an assertion sees them\<close>

text \<open>
  The assertions are generic (\<^verbatim>\<open>[T any]\<close>, \<^verbatim>\<open>[T comparable]\<close>) and hand their arguments to
  \<^verbatim>\<open>fmt\<close>, \<^verbatim>\<open>cmp.Equal\<close>, \<^verbatim>\<open>proto.Equal\<close> and \<^verbatim>\<open>errors.Is\<close>, all of which look at a value
  through an interface: a dynamic type and the value of that type, or the nil interface.
  \<open>val\<close> is that view. A pointer carries its address and the value it points to, so pointer
  identity (the address) and the pointed-to contents are both at hand; cyclic data is outside
  the model. A protobuf message is an opaque pointer to a generated struct: what
  \<^verbatim>\<open>proto.Equal\<close> and the message's \<^verbatim>\<open>String\<close> method make of it is a parameter (\<open>golib\<close>).
\<close>

datatype gotype =
    TBool | TInt | TString
  | TStruct string
  | TMessage string
  | TErrorImpl string
  | TErrorValue string
  | TPtr gotype
  | TAny | TError | TProtoMessage

text \<open>
  Error values. The first four kinds are pointers to structs, identified by their address:
  \<^verbatim>\<open>errors.New\<close>, \<^verbatim>\<open>fmt.Errorf\<close> with one \<^verbatim>\<open>%w\<close>, \<^verbatim>\<open>errors.Join\<close>, and a user-defined
  error type (its type name, address and message) that has an \<^verbatim>\<open>Is\<close> method, which reports
  true for the targets equal to one of the listed errors, and an \<^verbatim>\<open>Unwrap\<close> method, which
  returns the optional error. The fifth is a user-defined error that is a struct value of a
  type that is not comparable (it has a slice field), with its type name and message and
  with neither method; it has no address, and \<open>err_addr\<close> gives it 0. All of them keep their
  data in unexported fields.
\<close>

datatype goerror =
    ErrorString nat string
  | WrapError nat string goerror
  | JoinError nat "goerror list"
  | CustomError string nat string "goerror list" "goerror option"
  | UncomparableError string string

datatype val =
    NilV
  | BoolV bool
  | IntV int
  | StrV string
  | StructV string "(string \<times> val) list"
  | PtrV gotype "(nat \<times> val) option"
  | MsgV string "nat option"
  | ErrV goerror

record golib =
  protoEqual :: "val \<Rightarrow> val \<Rightarrow> bool"
  protoString :: "val \<Rightarrow> string"

fun err_type_name :: "goerror \<Rightarrow> string" where
  "err_type_name (ErrorString a s) = ''errors.errorString''"
| "err_type_name (WrapError a m e) = ''fmt.wrapError''"
| "err_type_name (JoinError a es) = ''errors.joinError''"
| "err_type_name (CustomError n a m ts u) = n"
| "err_type_name (UncomparableError n m) = n"

fun err_addr :: "goerror \<Rightarrow> nat" where
  "err_addr (ErrorString a s) = a"
| "err_addr (WrapError a m e) = a"
| "err_addr (JoinError a es) = a"
| "err_addr (CustomError n a m ts u) = a"
| "err_addr (UncomparableError n m) = 0"

fun comparable_error :: "goerror \<Rightarrow> bool" where
  "comparable_error (UncomparableError n m) = False"
| "comparable_error e = True"

definition err_type :: "goerror \<Rightarrow> gotype" where
  "err_type e =
     (if comparable_error e then TPtr (TErrorImpl (err_type_name e))
      else TErrorValue (err_type_name e))"

text \<open>The dynamic type of a value; the nil interface has none.\<close>

fun typeOf :: "val \<Rightarrow> gotype option" where
  "typeOf NilV = None"
| "typeOf (BoolV b) = Some TBool"
| "typeOf (IntV i) = Some TInt"
| "typeOf (StrV s) = Some TString"
| "typeOf (StructV n fs) = Some (TStruct n)"
| "typeOf (PtrV ty p) = Some (TPtr ty)"
| "typeOf (MsgV n p) = Some (TPtr (TMessage n))"
| "typeOf (ErrV e) = Some (err_type e)"

fun is_interface :: "gotype \<Rightarrow> bool" where
  "is_interface TAny = True"
| "is_interface TError = True"
| "is_interface TProtoMessage = True"
| "is_interface ty = False"

text \<open>Whether a dynamic type has the methods of an interface type.\<close>

fun implements :: "gotype \<Rightarrow> gotype \<Rightarrow> bool" where
  "implements d TAny = True"
| "implements (TPtr (TErrorImpl n)) TError = True"
| "implements (TErrorValue n) TError = True"
| "implements (TPtr (TMessage n)) TProtoMessage = True"
| "implements d ty = False"

text \<open>
  The type assertion \<^verbatim>\<open>value.(T)\<close>, comma-ok form: it fails on the nil interface, asks for
  the identical type when \<^verbatim>\<open>T\<close> is a concrete type, and for the method set when \<^verbatim>\<open>T\<close> is an
  interface type. When it succeeds the result is the value itself.
\<close>

definition type_assert :: "gotype \<Rightarrow> val \<Rightarrow> bool" where
  "type_assert T v =
     (case typeOf v of
        None \<Rightarrow> False
      | Some d \<Rightarrow> if is_interface T then implements d T else d = T)"

section \<open>Formatting: the verbs \<^verbatim>\<open>%T\<close> and \<^verbatim>\<open>%v\<close>\<close>

definition digit_char :: "nat \<Rightarrow> char" where
  "digit_char d = ''0123456789abcdef'' ! d"

function show_base :: "nat \<Rightarrow> nat \<Rightarrow> string" where
  "show_base b n =
     (if b < 2 \<or> n < b then [digit_char n]
      else show_base b (n div b) @ [digit_char (n mod b)])"
  by pat_completeness auto
termination
  by (relation "measure (\<lambda>(b, n). n)") auto

declare show_base.simps [simp del]

definition show_int :: "int \<Rightarrow> string" where
  "show_int i = (if i < 0 then ''-'' @ show_base 10 (nat (- i)) else show_base 10 (nat i))"

definition show_addr :: "nat \<Rightarrow> string" where
  "show_addr a = ''0x'' @ show_base 16 a"

fun type_name :: "gotype \<Rightarrow> string" where
  "type_name TBool = ''bool''"
| "type_name TInt = ''int''"
| "type_name TString = ''string''"
| "type_name (TStruct n) = n"
| "type_name (TMessage n) = n"
| "type_name (TErrorImpl n) = n"
| "type_name (TErrorValue n) = n"
| "type_name (TPtr ty) = ''*'' @ type_name ty"
| "type_name TAny = ''interface {}''"
| "type_name TError = ''error''"
| "type_name TProtoMessage = ''protoreflect.ProtoMessage''"

text \<open>\<^verbatim>\<open>%T\<close>: the dynamic type's name, \<^verbatim>\<open><nil>\<close> for the nil interface.\<close>

definition fmtT :: "val \<Rightarrow> string" where
  "fmtT v = (case typeOf v of None \<Rightarrow> ''<nil>'' | Some ty \<Rightarrow> type_name ty)"

fun join_with :: "string \<Rightarrow> string list \<Rightarrow> string" where
  "join_with sep [] = []"
| "join_with sep [x] = x"
| "join_with sep (x # y # ys) = x @ sep @ join_with sep (y # ys)"

text \<open>The \<^verbatim>\<open>Error\<close> method of each kind of error.\<close>

fun error_text :: "goerror \<Rightarrow> string"
  and error_texts :: "goerror list \<Rightarrow> string list" where
  "error_text (ErrorString a s) = s"
| "error_text (WrapError a m e) = m"
| "error_text (JoinError a es) = join_with [CHR 10] (error_texts es)"
| "error_text (CustomError n a m ts u) = m"
| "error_text (UncomparableError n m) = m"
| "error_texts [] = []"
| "error_texts (e # es) = error_text e # error_texts es"

fun struct_kind :: "gotype \<Rightarrow> bool" where
  "struct_kind (TStruct n) = True"
| "struct_kind (TMessage n) = True"
| "struct_kind (TErrorImpl n) = True"
| "struct_kind (TErrorValue n) = True"
| "struct_kind ty = False"

text \<open>
  \<^verbatim>\<open>%v\<close>. The flag says whether the value is the operand itself (depth 0): only there is a
  non-nil pointer to a struct printed as \<^verbatim>\<open>&{...}\<close>; any other non-nil pointer prints as
  its address. Errors print what \<^verbatim>\<open>Error\<close> returns and messages what \<^verbatim>\<open>String\<close> returns, at
  every depth. A struct prints its fields' values between braces, separated by spaces.
\<close>

fun printValue :: "golib \<Rightarrow> bool \<Rightarrow> val \<Rightarrow> string"
  and printFields :: "golib \<Rightarrow> (string \<times> val) list \<Rightarrow> string list" where
  "printValue L d0 NilV = ''<nil>''"
| "printValue L d0 (BoolV b) = (if b then ''true'' else ''false'')"
| "printValue L d0 (IntV i) = show_int i"
| "printValue L d0 (StrV s) = s"
| "printValue L d0 (StructV n fs) = ''{'' @ join_with '' '' (printFields L fs) @ ''}''"
| "printValue L d0 (PtrV ty None) = ''<nil>''"
| "printValue L d0 (PtrV ty (Some (a, v))) =
     (if d0 \<and> struct_kind ty then ''&'' @ printValue L False v else show_addr a)"
| "printValue L d0 (MsgV n p) = protoString L (MsgV n p)"
| "printValue L d0 (ErrV e) = error_text e"
| "printFields L [] = []"
| "printFields L ((n, v) # fs) = printValue L False v # printFields L fs"

definition fmtV :: "golib \<Rightarrow> val \<Rightarrow> string" where
  "fmtV L v = printValue L True v"

section \<open>The notions of equality\<close>

text \<open>
  The operator \<^verbatim>\<open>==\<close>; \<open>None\<close> is a panic. On interface values it asks for the same
  dynamic type and equal values of that type, and panics when the two have the same dynamic
  type and that type is not comparable. Pointers (messages and pointer errors too) are equal
  when their addresses are. Structs are compared field by field, in order, up to the first
  two fields that differ. \<open>same_error x y\<close> is \<^verbatim>\<open>x == y\<close> on two errors where \<open>y\<close> is of a
  comparable type.
\<close>

definition same_error :: "goerror \<Rightarrow> goerror \<Rightarrow> bool" where
  "same_error x y = (comparable_error y \<and> err_type x = err_type y \<and> err_addr x = err_addr y)"

fun go_eq :: "val \<Rightarrow> val \<Rightarrow> bool option"
  and go_eq_fields :: "(string \<times> val) list \<Rightarrow> (string \<times> val) list \<Rightarrow> bool option" where
  "go_eq NilV y = Some (y = NilV)"
| "go_eq (BoolV a) y = Some (y = BoolV a)"
| "go_eq (IntV a) y = Some (y = IntV a)"
| "go_eq (StrV a) y = Some (y = StrV a)"
| "go_eq (StructV n fs) y =
     (case y of
        StructV m gs \<Rightarrow> if n = m then go_eq_fields fs gs else Some False
      | _ \<Rightarrow> Some False)"
| "go_eq (PtrV ty p) y =
     (case y of
        PtrV ty' q \<Rightarrow> Some (ty = ty' \<and> map_option fst p = map_option fst q)
      | _ \<Rightarrow> Some False)"
| "go_eq (MsgV n p) y = Some (y = MsgV n p)"
| "go_eq (ErrV e) y =
     (case y of
        ErrV e' \<Rightarrow>
          if err_type e = err_type e' \<and> \<not> comparable_error e' then None
          else Some (same_error e e')
      | _ \<Rightarrow> Some False)"
| "go_eq_fields [] gs = Some (gs = [])"
| "go_eq_fields ((n, v) # fs) gs =
     (case gs of
        [] \<Rightarrow> Some False
      | (m, w) # gs' \<Rightarrow>
          (case go_eq v w of
             None \<Rightarrow> None
           | Some eq \<Rightarrow> if eq \<and> n = m then go_eq_fields fs gs' else Some False))"

text \<open>
  \<^verbatim>\<open>cmp.Equal(x, y, opts...)\<close>; \<open>None\<close> is a panic. Of the options the model has
  \<^verbatim>\<open>cmpopts.IgnoreFields(S{}, names...)\<close>, which skips the named fields of struct type \<open>S\<close>.
  Interfaces and pointers are equal when both are nil, or both are non-nil of the same
  dynamic type with equal contents; a struct's fields are all compared, in order;
  generated messages and the error structs have unexported fields, on which
  \<^verbatim>\<open>cmp.Equal\<close> panics when it has to descend into them.
\<close>

datatype cmpopt = IgnoreFields string "string list"

fun ignored :: "cmpopt list \<Rightarrow> string \<Rightarrow> string \<Rightarrow> bool" where
  "ignored [] n f = False"
| "ignored (IgnoreFields s names # opts) n f = ((s = n \<and> List.member names f) \<or> ignored opts n f)"

fun both :: "bool option \<Rightarrow> bool option \<Rightarrow> bool option" where
  "both (Some a) (Some b) = Some (a \<and> b)"
| "both r s = None"

fun cmp_Equal :: "cmpopt list \<Rightarrow> val \<Rightarrow> val \<Rightarrow> bool option"
  and compareStruct :: "cmpopt list \<Rightarrow> string \<Rightarrow> (string \<times> val) list \<Rightarrow> (string \<times> val) list
                        \<Rightarrow> bool option" where
  "cmp_Equal opts NilV y = Some (y = NilV)"
| "cmp_Equal opts (BoolV a) y = Some (y = BoolV a)"
| "cmp_Equal opts (IntV a) y = Some (y = IntV a)"
| "cmp_Equal opts (StrV a) y = Some (y = StrV a)"
| "cmp_Equal opts (StructV n fs) y =
     (case y of
        StructV m gs \<Rightarrow> if n = m then compareStruct opts n fs gs else Some False
      | _ \<Rightarrow> Some False)"
| "cmp_Equal opts (PtrV ty p) y =
     (case y of
        PtrV ty' q \<Rightarrow>
          if ty = ty' then
            (case p of
               None \<Rightarrow> Some (q = None)
             | Some (a, v) \<Rightarrow>
                 (case q of None \<Rightarrow> Some False | Some (b, w) \<Rightarrow> cmp_Equal opts v w))
          else Some False
      | _ \<Rightarrow> Some False)"
| "cmp_Equal opts (MsgV n p) y =
     (case y of
        MsgV m q \<Rightarrow>
          if n = m then
            (if p = None \<or> q = None then Some (p = None \<and> q = None) else None)
          else Some False
      | _ \<Rightarrow> Some False)"
| "cmp_Equal opts (ErrV e) y =
     (case y of
        ErrV e' \<Rightarrow> if err_type e = err_type e' then None else Some False
      | _ \<Rightarrow> Some False)"
| "compareStruct opts n [] gs = Some (gs = [])"
| "compareStruct opts n ((f, v) # fs) gs =
     (case gs of
        [] \<Rightarrow> Some False
      | (g, w) # gs' \<Rightarrow>
          both (if ignored opts n f then Some True else cmp_Equal opts v w)
               (compareStruct opts n fs gs'))"

text \<open>
  \<^verbatim>\<open>errors.Is(err, target)\<close>. A nil operand makes it \<^verbatim>\<open>err == target\<close>. Otherwise
  \<open>is_loop\<close> walks down from \<open>err\<close>: at each error it tries \<^verbatim>\<open>==\<close> with the target,
  if the target's type is comparable (\<open>same_error\<close>), then the error's own \<^verbatim>\<open>Is\<close> method
  if it has one, then goes on with what \<^verbatim>\<open>Unwrap\<close> returns: one error, or \<^verbatim>\<open>nil\<close> (which
  ends the walk with false), or for a joined error each of the errors in turn.
\<close>

fun is_loop :: "goerror \<Rightarrow> goerror \<Rightarrow> bool"
  and is_any :: "goerror list \<Rightarrow> goerror \<Rightarrow> bool" where
  "is_loop (ErrorString a s) target = same_error (ErrorString a s) target"
| "is_loop (WrapError a m e) target =
     (if same_error (WrapError a m e) target then True else is_loop e target)"
| "is_loop (JoinError a es) target =
     (if same_error (JoinError a es) target then True else is_any es target)"
| "is_loop (CustomError n a m ts u) target =
     (if same_error (CustomError n a m ts u) target then True
      else if list_ex (\<lambda>s. same_error s target) ts then True
      else (case u of None \<Rightarrow> False | Some e \<Rightarrow> is_loop e target))"
| "is_loop (UncomparableError n m) target = same_error (UncomparableError n m) target"
| "is_any [] target = False"
| "is_any (e # es) target = (if is_loop e target then True else is_any es target)"

definition errors_Is :: "goerror option \<Rightarrow> goerror option \<Rightarrow> bool" where
  "errors_Is err target =
     (case err of
        None \<Rightarrow> target = None
      | Some e \<Rightarrow> (case target of None \<Rightarrow> False | Some t \<Rightarrow> is_loop e t))"

text \<open>An \<^verbatim>\<open>error\<close> as an interface value, and back.\<close>

fun iface :: "goerror option \<Rightarrow> val" where
  "iface None = NilV"
| "iface (Some e) = ErrV e"

fun the_error :: "val \<Rightarrow> goerror option" where
  "the_error (ErrV e) = Some e"
| "the_error v = None"

section \<open>The reporting sink and the outcome of a call\<close>

text \<open>
  \<^verbatim>\<open>*testing.T\<close> is the list of what has been reported to it. \<^verbatim>\<open>Errorf\<close> records a
  failure and returns; \<^verbatim>\<open>Fatalf\<close> records one and stops the test (\<open>Halted\<close>: nothing
  after it runs); \<^verbatim>\<open>Helper\<close> reports nothing. A call that panics is \<open>Panicked\<close>.
\<close>

datatype report = Failure string | FatalFailure string

type_synonym sink = "report list"

datatype 'a outcome = Returned 'a | Halted | Panicked

definition Helper :: "sink \<Rightarrow> sink" where
  "Helper t = t"

definition Errorf :: "sink \<Rightarrow> string \<Rightarrow> sink" where
  "Errorf t msg = t @ [Failure msg]"

definition Fatalf :: "sink \<Rightarrow> string \<Rightarrow> 'a outcome \<times> sink" where
  "Fatalf t msg = (Halted, t @ [FatalFailure msg])"

section \<open>The assertions of \<^verbatim>\<open>assert.go\<close> (operator and message equality)\<close>

definition EqualsFunc_v1 ::
  "golib \<Rightarrow> sink \<Rightarrow> val \<Rightarrow> val \<Rightarrow> (val \<Rightarrow> val \<Rightarrow> bool option) \<Rightarrow> bool outcome \<times> sink" where
  "EqualsFunc_v1 L t expected actual equals =
     (case equals expected actual of
        None \<Rightarrow> (Panicked, t)
      | Some ok \<Rightarrow>
          if \<not> ok
          then (Returned ok,
                Errorf t (fmtT actual @ '' = '' @ fmtV L actual @ '', want '' @ fmtV L expected))
          else (Returned ok, t))"

definition Equals_v1 :: "golib \<Rightarrow> sink \<Rightarrow> val \<Rightarrow> val \<Rightarrow> bool outcome \<times> sink" where
  "Equals_v1 L t expected actual =
     EqualsFunc_v1 L t expected actual (\<lambda>expected actual.
       if type_assert TProtoMessage expected
       then (if type_assert TProtoMessage actual
             then Some (protoEqual L expected actual) else None)
       else go_eq expected actual)"

definition NotEquals_v1 :: "golib \<Rightarrow> sink \<Rightarrow> val \<Rightarrow> val \<Rightarrow> bool outcome \<times> sink" where
  "NotEquals_v1 L t expected actual =
     (case (if type_assert TProtoMessage expected
            then (if type_assert TProtoMessage actual
                  then Some (\<not> protoEqual L expected actual) else None)
            else map_option Not (go_eq expected actual)) of
        None \<Rightarrow> (Panicked, t)
      | Some ok \<Rightarrow>
          if \<not> ok
          then (Returned ok,
                Errorf t (fmtT actual @ '' = '' @ fmtV L actual @ '', want '' @ fmtV L expected))
          else (Returned ok, t))"

definition Is_v1 :: "golib \<Rightarrow> gotype \<Rightarrow> sink \<Rightarrow> val \<Rightarrow> val outcome \<times> sink" where
  "Is_v1 L T t value =
     (if \<not> type_assert T value
      then Fatalf t (fmtV L value @ '' is not of type '' @ type_name (TPtr T))
      else (Returned value, t))"

definition NoError_v1 :: "golib \<Rightarrow> sink \<Rightarrow> goerror option \<Rightarrow> bool outcome \<times> sink" where
  "NoError_v1 L t err = Equals_v1 L t NilV (iface err)"

text \<open>
  In \<^verbatim>\<open>NotNil\<close> the arguments of \<^verbatim>\<open>NotEquals\<close> are \<^verbatim>\<open>nil\<close> and \<^verbatim>\<open>&value\<close>, so \<^verbatim>\<open>T\<close> is
  \<^verbatim>\<open>*any\<close>: the expected value is the nil pointer of that type and the actual one is the
  address \<open>a\<close> of the parameter \<^verbatim>\<open>value\<close>.
\<close>

definition NotNil_v1 :: "golib \<Rightarrow> nat \<Rightarrow> sink \<Rightarrow> val \<Rightarrow> bool outcome \<times> sink" where
  "NotNil_v1 L a t value =
     (case NotEquals_v1 L t (PtrV TAny None) (PtrV TAny (Some (a, value))) of
        (Returned ok, t') \<Rightarrow>
          if \<not> ok
          then Fatalf t' (''variable of type '' @ fmtT value @ '' should not be nil'')
          else (Returned ok, t')
      | (Halted, t') \<Rightarrow> (Halted, t')
      | (Panicked, t') \<Rightarrow> (Panicked, t'))"

definition Nil_v1 :: "golib \<Rightarrow> sink \<Rightarrow> val \<Rightarrow> bool outcome \<times> sink" where
  "Nil_v1 L t value = Equals_v1 L t NilV value"

definition ErrorIs_v1 ::
  "golib \<Rightarrow> sink \<Rightarrow> goerror option \<Rightarrow> goerror option \<Rightarrow> bool outcome \<times> sink" where
  "ErrorIs_v1 L t expected actual =
     EqualsFunc_v1 L t (iface expected) (iface actual) (\<lambda>expected actual.
       Some (errors_Is (the_error actual) (the_error expected)))"

section \<open>The assertions of the later file (structural comparison)\<close>

definition EqualsFunc_v2 ::
  "golib \<Rightarrow> sink \<Rightarrow> val \<Rightarrow> val \<Rightarrow> (val \<Rightarrow> val \<Rightarrow> bool option) \<Rightarrow> bool outcome \<times> sink" where
  "EqualsFunc_v2 L t0 expected actual equals =
     (let t = Helper t0 in
      case equals expected actual of
        None \<Rightarrow> (Panicked, t)
      | Some ok \<Rightarrow>
          if \<not> ok
          then (Returned ok,
                Errorf t (fmtT actual @ '' = '' @ fmtV L actual @ '', want '' @ fmtV L expected))
          else (Returned ok, t))"

definition Equals_v2 ::
  "golib \<Rightarrow> sink \<Rightarrow> val \<Rightarrow> val \<Rightarrow> cmpopt list \<Rightarrow> bool outcome \<times> sink" where
  "Equals_v2 L t0 expected actual opts =
     (let t = Helper t0 in
      EqualsFunc_v2 L t expected actual (\<lambda>expected actual. cmp_Equal opts expected actual))"

definition NotEquals_v2 ::
  "golib \<Rightarrow> sink \<Rightarrow> val \<Rightarrow> val \<Rightarrow> cmpopt list \<Rightarrow> bool outcome \<times> sink" where
  "NotEquals_v2 L t0 expected actual opts =
     (let t = Helper t0 in
      case map_option Not (cmp_Equal opts expected actual) of
        None \<Rightarrow> (Panicked, t)
      | Some ok \<Rightarrow>
          if \<not> ok
          then (Returned ok,
                Errorf t (fmtT actual @ '' != '' @ fmtV L actual @ '', want '' @ fmtV L expected))
          else (Returned ok, t))"

definition Is_v2 :: "golib \<Rightarrow> gotype \<Rightarrow> sink \<Rightarrow> val \<Rightarrow> val outcome \<times> sink" where
  "Is_v2 L T t0 value =
     (let t = Helper t0 in
      if \<not> type_assert T value
      then Fatalf t (fmtV L value @ '' is not of type '' @ type_name (TPtr T))
      else (Returned value, t))"

definition NoError_v2 :: "golib \<Rightarrow> sink \<Rightarrow> goerror option \<Rightarrow> bool outcome \<times> sink" where
  "NoError_v2 L t err = Equals_v2 L t NilV (iface err) []"

definition NotNil_v2 :: "golib \<Rightarrow> nat \<Rightarrow> sink \<Rightarrow> val \<Rightarrow> bool outcome \<times> sink" where
  "NotNil_v2 L a t0 value =
     (let t = Helper t0 in
      case NotEquals_v2 L t (PtrV TAny None) (PtrV TAny (Some (a, value))) [] of
        (Returned ok, t') \<Rightarrow>
          if \<not> ok
          then Fatalf t' (''variable of type '' @ fmtT value @ '' should not be nil'')
          else (Returned ok, t')
      | (Halted, t') \<Rightarrow> (Halted, t')
      | (Panicked, t') \<Rightarrow> (Panicked, t'))"

definition Nil_v2 :: "golib \<Rightarrow> sink \<Rightarrow> val \<Rightarrow> bool outcome \<times> sink" where
  "Nil_v2 L t0 value = (let t = Helper t0 in Equals_v2 L t NilV value [])"

definition ErrorIs_v2 ::
  "golib \<Rightarrow> sink \<Rightarrow> goerror option \<Rightarrow> goerror option \<Rightarrow> bool outcome \<times> sink" where
  "ErrorIs_v2 L t0 expected actual =
     (let t = Helper t0 in
      EqualsFunc_v2 L t (iface expected) (iface actual) (\<lambda>expected actual.
        Some (errors_Is (the_error actual) (the_error expected))))"

section \<open>Values used in the examples\<close>

text \<open>
  \<^verbatim>\<open>&SomeStruct{A: x, B: y}\<close> of the test file, allocated at address \<open>a\<close>, and a protobuf
  runtime in which every valid message is empty, so that two messages are equal when they
  have the same type and validity.
\<close>

definition SomeStruct :: "nat \<Rightarrow> int \<Rightarrow> string \<Rightarrow> val" where
  "SomeStruct a x y =
     PtrV (TStruct ''assert.SomeStruct'')
       (Some (a, StructV ''assert.SomeStruct'' [(''A'', IntV x), (''B'', StrV y)]))"

fun msg_type :: "val \<Rightarrow> (string \<times> bool) option" where
  "msg_type (MsgV n p) = Some (n, p = None)"
| "msg_type v = None"

fun empty_string :: "val \<Rightarrow> string" where
  "empty_string (MsgV n None) = ''<nil>''"
| "empty_string v = []"

definition empty_messages :: golib where
  "empty_messages = \<lparr> protoEqual = (\<lambda>x y. msg_type x = msg_type y), protoString = empty_string \<rparr>"

section \<open>What the specification's terms mean\<close>

text \<open>The complement of a boolean result; a panic has no complement.\<close>

fun negate :: "bool outcome \<Rightarrow> bool outcome" where
  "negate (Returned b) = Returned (\<not> b)"
| "negate Halted = Halted"
| "negate Panicked = Panicked"

text \<open>
  The error chain of an error: the error itself and every error reached from it by
  unwrapping, any number of times. \<open>accepts c e\<close> is the equality that \<open>c\<close> defines by its
  own \<^verbatim>\<open>Is\<close> method. \<open>is_or_wraps actual expected\<close> follows the specification's words:
  \<open>actual\<close> is, or wraps anywhere in its chain, an error equal by identity or by defined
  equality to \<open>expected\<close>; with a nil operand, the two are the same. Identity is the
  operator \<^verbatim>\<open>==\<close> where the type of \<open>expected\<close> is comparable (\<open>same_error\<close>).
\<close>

fun error_chain :: "goerror \<Rightarrow> goerror list"
  and error_chains :: "goerror list \<Rightarrow> goerror list" where
  "error_chain (ErrorString a s) = [ErrorString a s]"
| "error_chain (WrapError a m e) = WrapError a m e # error_chain e"
| "error_chain (JoinError a es) = JoinError a es # error_chains es"
| "error_chain (CustomError n a m ts u) =
     CustomError n a m ts u # (case u of None \<Rightarrow> [] | Some e \<Rightarrow> error_chain e)"
| "error_chain (UncomparableError n m) = [UncomparableError n m]"
| "error_chains [] = []"
| "error_chains (e # es) = error_chain e @ error_chains es"

fun accepts :: "goerror \<Rightarrow> goerror \<Rightarrow> bool" where
  "accepts (CustomError n a m ts u) target = list_ex (\<lambda>s. same_error s target) ts"
| "accepts c target = False"

definition is_or_wraps :: "goerror option \<Rightarrow> goerror option \<Rightarrow> bool" where
  "is_or_wraps actual expected =
     (case actual of
        None \<Rightarrow> expected = None
      | Some a \<Rightarrow>
          (case expected of
             None \<Rightarrow> False
           | Some e \<Rightarrow> list_ex (\<lambda>c. same_error c e \<or> accepts c e) (error_chain a)))"

text \<open>An error wrapped in layers of \<^verbatim>\<open>fmt.Errorf("...%w", err)\<close>, outermost first.\<close>

fun wrap_layers :: "(nat \<times> string) list \<Rightarrow> goerror \<Rightarrow> goerror" where
  "wrap_layers [] e = e"
| "wrap_layers ((a, m) # ls) e = WrapError a m (wrap_layers ls e)"

text \<open>
  The shape of a failure message: the actual value's type, a separator, the actual value,
  \<^verbatim>\<open>, want\<close> and the expected value.
\<close>

definition got_want :: "string \<Rightarrow> golib \<Rightarrow> val \<Rightarrow> val \<Rightarrow> string" where
  "got_want sep L expected actual =
     fmtT actual @ sep @ fmtV L actual @ '', want '' @ fmtV L expected"

text \<open>
  What a call has reported: \<open>added t t'\<close> is what the sink \<open>t'\<close> holds after the entries of
  the sink \<open>t\<close> it started from, if it starts with them.
\<close>

definition added :: "sink \<Rightarrow> sink \<Rightarrow> report list option" where
  "added t t' = (if take (length t) t' = t then Some (drop (length t) t') else None)"

text \<open>
  The errors of the standard library alone (\<^verbatim>\<open>errors.New\<close>, \<^verbatim>\<open>fmt.Errorf\<close>,
  \<^verbatim>\<open>errors.Join\<close>): none of them has an \<^verbatim>\<open>Is\<close> method, so for them the only equality in
  play is identity, and \<open>is_or_wraps_identical\<close> says that \<open>actual\<close> is, or wraps anywhere in
  its chain, the very error \<open>expected\<close>.
\<close>

fun standard :: "goerror \<Rightarrow> bool"
  and standards :: "goerror list \<Rightarrow> bool" where
  "standard (ErrorString a s) = True"
| "standard (WrapError a m e) = standard e"
| "standard (JoinError a es) = standards es"
| "standard (CustomError n a m ts u) = False"
| "standard (UncomparableError n m) = False"
| "standards [] = True"
| "standards (e # es) = (standard e \<and> standards es)"

definition is_or_wraps_identical :: "goerror \<Rightarrow> goerror \<Rightarrow> bool" where
  "is_or_wraps_identical actual expected =
     list_ex (\<lambda>c. same_error c expected) (error_chain actual)"

section \<open>Shared facts\<close>

lemma show_int_small [simp]:
  "show_int 1 = ''1''" "show_int 2 = ''2''" "show_int 5 = ''5''"
  by (simp_all add: show_int_def show_base.simps digit_char_def)

text \<open>The address of a variable is never the nil pointer, under either notion of equality.\<close>

lemma NotEquals_v1_address:
  "NotEquals_v1 L t (PtrV TAny None) (PtrV TAny (Some (a, value))) = (Returned True, t)"
  by (simp add: NotEquals_v1_def type_assert_def)

lemma NotEquals_v2_address:
  "NotEquals_v2 L t (PtrV TAny None) (PtrV TAny (Some (a, value))) [] = (Returned True, t)"
  by (simp add: NotEquals_v2_def Helper_def)

lemma NotNil_v1_returns: "NotNil_v1 L a t value = (Returned True, t)"
  by (simp add: NotNil_v1_def NotEquals_v1_address)

lemma NotNil_v2_returns: "NotNil_v2 L a t value = (Returned True, t)"
  by (simp add: NotNil_v2_def NotEquals_v2_address Helper_def)

section \<open>Structural equality of pointed-to structs\<close>



section \<open>\<^verbatim>\<open>NotNil\<close> on nil inputs\<close>

text \<open>
  C2. The claim is that \<^verbatim>\<open>NotNil\<close> halts the test on every nil input. Evaluated on the nil
  pointer \<^verbatim>\<open>(*int)(nil)\<close> and on the nil interface, \<^verbatim>\<open>NotNil\<close> of either file returns
  true and reports nothing: it compares the address of its own parameter with nil.
\<close>

theorem NotNil_nil_returns_true:
  "NotNil_v1 L a t (PtrV TInt None) = (Returned True, t)
   \<and> NotNil_v2 L a t (PtrV TInt None) = (Returned True, t)
   \<and> NotNil_v1 L a t NilV = (Returned True, t)
   \<and> NotNil_v2 L a t NilV = (Returned True, t)"
  by (simp add: NotNil_v1_returns NotNil_v2_returns)

section \<open>The message of a failed \<^verbatim>\<open>Is\<close>\<close>

text \<open>
  C4. The claim is that a failed \<^verbatim>\<open>Is[T]\<close> halts with the message
  \<^verbatim>\<open><value> is not of type <T>\<close>. Evaluated at \<^verbatim>\<open>Is[string](t, 5)\<close>, both files halt the
  test with a message that names the pointer type \<^verbatim>\<open>*string\<close>, the type of \<^verbatim>\<open>new(T)\<close>.
\<close>

theorem Is_string_5_message:
  "Is_v1 L TString t (IntV 5) = (Halted, t @ [FatalFailure ''5 is not of type *string''])
   \<and> Is_v2 L TString t (IntV 5) = (Halted, t @ [FatalFailure ''5 is not of type *string''])"
  by (simp add: Is_v1_def Is_v2_def Helper_def Fatalf_def type_assert_def fmtV_def)

section \<open>\<^verbatim>\<open>NotEquals\<close> against \<^verbatim>\<open>Equals\<close>\<close>

text \<open>
  C5. For every pair of values, and in the later file every list of options,
  \<^verbatim>\<open>NotEquals\<close> returns the negation of what \<^verbatim>\<open>Equals\<close> returns, the message case of
  \<^verbatim>\<open>assert.go\<close> included (for every \<^verbatim>\<open>proto.Equal\<close>); where one of them panics, so does
  the other.
\<close>

theorem NotEquals_negates_Equals:
  "fst (NotEquals_v1 L t expected actual) = negate (fst (Equals_v1 L t expected actual))
   \<and> fst (NotEquals_v2 L t expected actual opts) =
       negate (fst (Equals_v2 L t expected actual opts))"
  by (simp add: NotEquals_v1_def Equals_v1_def EqualsFunc_v1_def NotEquals_v2_def Equals_v2_def
      EqualsFunc_v2_def Helper_def split: option.splits)

theorem NotEquals_negates_Equals_witness:
  "fst (NotEquals_v1 empty_messages [] (MsgV ''pb.M'' None) (MsgV ''pb.M'' (Some 1))) =
     Returned True
   \<and> fst (Equals_v1 empty_messages [] (MsgV ''pb.M'' None) (MsgV ''pb.M'' (Some 1))) =
       Returned False
   \<and> fst (NotEquals_v2 empty_messages [] (IntV 1) (IntV 1) []) = Returned False"
  using NotEquals_negates_Equals
    [of empty_messages "[]" "MsgV ''pb.M'' None" "MsgV ''pb.M'' (Some 1)"]
    NotEquals_negates_Equals [of empty_messages "[]" "IntV 1" "IntV 1" "[]"]
  by (simp add: Equals_v1_def EqualsFunc_v1_def Equals_v2_def EqualsFunc_v2_def Helper_def
      type_assert_def empty_messages_def)

section \<open>The two files disagree\<close>

text \<open>
  C8. On two pointers, at different addresses, to structs with equal fields (one type, not
  a message type), \<^verbatim>\<open>Equals\<close> of \<^verbatim>\<open>assert.go\<close> returns false and \<^verbatim>\<open>Equals\<close> of the later
  file returns true.
\<close>

theorem Equals_variants_differ:
  "typeOf (SomeStruct 1 1 ''foo'') = typeOf (SomeStruct 2 1 ''foo'')
   \<and> \<not> type_assert TProtoMessage (SomeStruct 1 1 ''foo'')
   \<and> fst (Equals_v1 L t (SomeStruct 1 1 ''foo'') (SomeStruct 2 1 ''foo'')) = Returned False
   \<and> fst (Equals_v2 L t (SomeStruct 1 1 ''foo'') (SomeStruct 2 1 ''foo'') []) = Returned True"
  by (simp add: Equals_v1_def EqualsFunc_v1_def Equals_v2_def EqualsFunc_v2_def Helper_def
      SomeStruct_def type_assert_def)

section \<open>\<^verbatim>\<open>ErrorIs\<close> walks the error chain\<close>

lemma same_error_refl: "comparable_error e \<Longrightarrow> same_error e e"
  by (simp add: same_error_def)

lemma is_loop_chain:
  "is_loop e t = list_ex (\<lambda>c. same_error c t \<or> accepts c t) (error_chain e)"
  "is_any es t = list_ex (\<lambda>c. same_error c t \<or> accepts c t) (error_chains es)"
  by (induction e t and es t rule: is_loop_is_any.induct) (auto split: option.splits)

lemma errors_Is_is_or_wraps: "errors_Is actual expected = is_or_wraps actual expected"
  by (simp add: errors_Is_def is_or_wraps_def is_loop_chain split: option.splits)

lemma is_loop_self: "comparable_error e \<Longrightarrow> is_loop e e"
  by (cases e) (simp_all add: same_error_def)

lemma is_loop_wrap_layers: "comparable_error e \<Longrightarrow> is_loop (wrap_layers ls e) e"
  by (induction ls) (auto simp: is_loop_self)

lemma standard_chain:
  "standard e \<Longrightarrow> list_ex (\<lambda>c. same_error c t \<or> accepts c t) (error_chain e)
     = list_ex (\<lambda>c. same_error c t) (error_chain e)"
  "standards es \<Longrightarrow> list_ex (\<lambda>c. same_error c t \<or> accepts c t) (error_chains es)
     = list_ex (\<lambda>c. same_error c t) (error_chains es)"
  by (induction e and es rule: standard_standards.induct) auto

lemma the_error_iface [simp]: "the_error (iface e) = e"
  by (cases e) simp_all

lemma ErrorIs_v1_eq:
  "ErrorIs_v1 L t expected actual =
     (if is_or_wraps actual expected then (Returned True, t)
      else (Returned False, t @ [Failure (got_want '' = '' L (iface expected) (iface actual))]))"
  by (simp add: ErrorIs_v1_def EqualsFunc_v1_def errors_Is_is_or_wraps Errorf_def got_want_def)

lemma ErrorIs_v2_eq:
  "ErrorIs_v2 L t expected actual =
     (if is_or_wraps actual expected then (Returned True, t)
      else (Returned False, t @ [Failure (got_want '' = '' L (iface expected) (iface actual))]))"
  by (simp add: ErrorIs_v2_def EqualsFunc_v2_def Helper_def errors_Is_is_or_wraps Errorf_def
      got_want_def)

text \<open>
  C3, as claimed: \<^verbatim>\<open>ErrorIs\<close> is true only when \<open>actual\<close> is, or wraps, the expected error,
  so it is false for two distinct errors with the same text and no chain relationship, and
  it is true for any error under any wrapping. Two errors of a user-defined type at
  addresses 1 and 2, with the same text, neither wrapping anything, the second with an
  \<^verbatim>\<open>Is\<close> method that accepts the first: \<^verbatim>\<open>ErrorIs\<close> of either file returns true. An error
  whose type is not comparable, wrapped once: \<^verbatim>\<open>ErrorIs\<close> of either file returns false
  and records a failure.
\<close>

theorem ErrorIs_claim_counterexample:
  "ErrorIs_v1 empty_messages [] (Some (CustomError ''pkg.codeError'' 1 ''boom'' [] None))
     (Some (CustomError ''pkg.codeError'' 2 ''boom''
        [CustomError ''pkg.codeError'' 1 ''boom'' [] None] None)) = (Returned True, [])
   \<and> ErrorIs_v2 empty_messages [] (Some (CustomError ''pkg.codeError'' 1 ''boom'' [] None))
     (Some (CustomError ''pkg.codeError'' 2 ''boom''
        [CustomError ''pkg.codeError'' 1 ''boom'' [] None] None)) = (Returned True, [])
   \<and> error_chain (CustomError ''pkg.codeError'' 2 ''boom''
        [CustomError ''pkg.codeError'' 1 ''boom'' [] None] None) =
       [CustomError ''pkg.codeError'' 2 ''boom''
        [CustomError ''pkg.codeError'' 1 ''boom'' [] None] None]
   \<and> \<not> same_error (CustomError ''pkg.codeError'' 2 ''boom''
        [CustomError ''pkg.codeError'' 1 ''boom'' [] None] None)
       (CustomError ''pkg.codeError'' 1 ''boom'' [] None)
   \<and> ErrorIs_v1 empty_messages [] (Some (UncomparableError ''pkg.listError'' ''boom''))
     (Some (WrapError 1 ''wrapped: boom'' (UncomparableError ''pkg.listError'' ''boom''))) =
       (Returned False, [Failure ''*fmt.wrapError = wrapped: boom, want boom''])
   \<and> ErrorIs_v2 empty_messages [] (Some (UncomparableError ''pkg.listError'' ''boom''))
     (Some (WrapError 1 ''wrapped: boom'' (UncomparableError ''pkg.listError'' ''boom''))) =
       (Returned False, [Failure ''*fmt.wrapError = wrapped: boom, want boom''])"
  by (simp add: ErrorIs_v1_def ErrorIs_v2_def EqualsFunc_v1_def EqualsFunc_v2_def Helper_def
      Errorf_def errors_Is_def same_error_def err_type_def fmtT_def fmtV_def)

text \<open>
  C3, amended. \<^verbatim>\<open>ErrorIs(t, expected, actual)\<close>, in both files, returns true exactly when
  both errors are nil, or some error of \<open>actual\<close>'s chain (\<open>actual\<close> itself or an error
  reached from it by unwrapping) is \<^verbatim>\<open>==\<close> to \<open>expected\<close>, the type of \<open>expected\<close> being
  comparable, or accepts \<open>expected\<close> by its own \<^verbatim>\<open>Is\<close> method. For the errors of the
  standard library that is: \<open>actual\<close> is, or wraps, the very error \<open>expected\<close>. It is true
  for every error of a comparable type under any number of wrapping layers, and false for
  two errors made by \<^verbatim>\<open>errors.New\<close> at different addresses with the same text. It is a
  soft assertion: it always returns, and a false result comes with exactly one recorded,
  non-fatal failure.
\<close>

theorem ErrorIs_is_or_wraps:
  "ErrorIs_v1 L t expected actual =
     (if is_or_wraps actual expected then (Returned True, t)
      else (Returned False, t @ [Failure (got_want '' = '' L (iface expected) (iface actual))]))
   \<and> ErrorIs_v2 L t expected actual = ErrorIs_v1 L t expected actual
   \<and> (standard a \<longrightarrow> is_or_wraps (Some a) (Some e) = is_or_wraps_identical a e)
   \<and> (comparable_error e \<longrightarrow> is_or_wraps (Some (wrap_layers ls e)) (Some e))
   \<and> is_or_wraps (Some (ErrorString x s)) (Some (ErrorString y s)) = (x = y)"
proof -
  have layers: "comparable_error e \<longrightarrow> is_or_wraps (Some (wrap_layers ls e)) (Some e)"
    using is_loop_wrap_layers [of e ls]
      errors_Is_is_or_wraps [of "Some (wrap_layers ls e)" "Some e"]
    by (simp add: errors_Is_def)
  have distinct: "is_or_wraps (Some (ErrorString x s)) (Some (ErrorString y s)) = (x = y)"
    by (auto simp add: is_or_wraps_def same_error_def)
  have identity: "standard a \<longrightarrow> is_or_wraps (Some a) (Some e) = is_or_wraps_identical a e"
    by (simp add: is_or_wraps_def is_or_wraps_identical_def standard_chain)
  show ?thesis
    using layers distinct identity by (simp add: ErrorIs_v1_eq ErrorIs_v2_eq)
qed

theorem ErrorIs_is_or_wraps_witness:
  "ErrorIs_v2 empty_messages [] (Some (ErrorString 1 ''boom''))
     (Some (wrap_layers [(3, ''outer: inner: boom''), (2, ''inner: boom'')]
        (ErrorString 1 ''boom''))) = (Returned True, [])
   \<and> ErrorIs_v2 empty_messages [] (Some (ErrorString 1 ''boom''))
       (Some (ErrorString 2 ''boom'')) =
       (Returned False, [Failure ''*errors.errorString = boom, want boom''])
   \<and> standard (WrapError 2 ''inner: boom'' (ErrorString 1 ''boom''))
   \<and> is_or_wraps_identical (WrapError 2 ''inner: boom'' (ErrorString 1 ''boom''))
       (ErrorString 1 ''boom'')
   \<and> comparable_error (ErrorString 1 ''boom'')
   \<and> is_or_wraps (Some (wrap_layers [(2, ''inner: boom'')] (ErrorString 1 ''boom'')))
       (Some (ErrorString 1 ''boom''))"
  using ErrorIs_is_or_wraps [of empty_messages "[]" "Some (ErrorString 1 ''boom'')"
      "Some (wrap_layers [(3, ''outer: inner: boom''), (2, ''inner: boom'')]
         (ErrorString 1 ''boom''))"
      "WrapError 2 ''inner: boom'' (ErrorString 1 ''boom'')" "ErrorString 1 ''boom''"
      "[(2, ''inner: boom'')]" 1 "''boom''" 2]
    ErrorIs_is_or_wraps [of empty_messages "[]" "Some (ErrorString 1 ''boom'')"
      "Some (ErrorString 2 ''boom'')"
      "WrapError 2 ''inner: boom'' (ErrorString 1 ''boom'')" "ErrorString 1 ''boom''"
      "[(2, ''inner: boom'')]" 1 "''boom''" 2]
  by (simp add: is_or_wraps_def is_or_wraps_identical_def same_error_def err_type_def
      got_want_def fmtT_def fmtV_def)

section \<open>The shape of the failure messages\<close>

lemma msg_EqualsFunc_v1:
  "snd (EqualsFunc_v1 L t e a eq) =
     (if fst (EqualsFunc_v1 L t e a eq) = Returned False
      then t @ [Failure (got_want '' = '' L e a)] else t)"
  by (simp add: EqualsFunc_v1_def Errorf_def got_want_def split: option.splits)

lemma msg_EqualsFunc_v2:
  "snd (EqualsFunc_v2 L t e a eq) =
     (if fst (EqualsFunc_v2 L t e a eq) = Returned False
      then t @ [Failure (got_want '' = '' L e a)] else t)"
  by (simp add: EqualsFunc_v2_def Helper_def Errorf_def got_want_def split: option.splits)

lemma msg_NotEquals_v1:
  "snd (NotEquals_v1 L t e a) =
     (if fst (NotEquals_v1 L t e a) = Returned False
      then t @ [Failure (got_want '' = '' L e a)] else t)"
  by (simp add: NotEquals_v1_def Errorf_def got_want_def split: option.splits)

lemma msg_NotEquals_v2:
  "snd (NotEquals_v2 L t e a opts) =
     (if fst (NotEquals_v2 L t e a opts) = Returned False
      then t @ [Failure (got_want '' != '' L e a)] else t)"
  by (simp add: NotEquals_v2_def Helper_def Errorf_def got_want_def split: option.splits)

text \<open>
  C6, as claimed: every soft-assertion failure message has the one shape
  \<^verbatim>\<open><type> = <actual>, want <expected>\<close>. In the later file \<^verbatim>\<open>NotEquals(t, 1, 1)\<close> fails with
  the message \<^verbatim>\<open>int != 1, want 1\<close>, which is not of that shape.
\<close>

theorem NotEquals_v2_message_counterexample:
  "fst (NotEquals_v2 empty_messages [] (IntV 1) (IntV 1) []) = Returned False
   \<and> snd (NotEquals_v2 empty_messages [] (IntV 1) (IntV 1) []) = [Failure ''int != 1, want 1'']
   \<and> snd (NotEquals_v2 empty_messages [] (IntV 1) (IntV 1) []) \<noteq>
       [Failure (got_want '' = '' empty_messages (IntV 1) (IntV 1))]"
  by (simp add: NotEquals_v2_def Helper_def Errorf_def got_want_def fmtT_def fmtV_def)

text \<open>
  C6, amended. A failed \<^verbatim>\<open>Equals\<close>, \<^verbatim>\<open>EqualsFunc\<close> or \<^verbatim>\<open>ErrorIs\<close> of either file, and a
  failed \<^verbatim>\<open>NotEquals\<close> of \<^verbatim>\<open>assert.go\<close>, records the message
  \<^verbatim>\<open><actual's type> = <actual>, want <expected>\<close>; a failed \<^verbatim>\<open>NotEquals\<close> of the later file
  records \<^verbatim>\<open><actual's type> != <actual>, want <expected>\<close>. A call that does not fail
  records nothing.
\<close>

theorem soft_failure_messages:
  "snd (Equals_v1 L t e a) =
     (if fst (Equals_v1 L t e a) = Returned False
      then t @ [Failure (got_want '' = '' L e a)] else t)
   \<and> snd (Equals_v2 L t e a opts) =
     (if fst (Equals_v2 L t e a opts) = Returned False
      then t @ [Failure (got_want '' = '' L e a)] else t)
   \<and> snd (EqualsFunc_v1 L t e a eq) =
     (if fst (EqualsFunc_v1 L t e a eq) = Returned False
      then t @ [Failure (got_want '' = '' L e a)] else t)
   \<and> snd (EqualsFunc_v2 L t e a eq) =
     (if fst (EqualsFunc_v2 L t e a eq) = Returned False
      then t @ [Failure (got_want '' = '' L e a)] else t)
   \<and> snd (ErrorIs_v1 L t ee ea) =
     (if fst (ErrorIs_v1 L t ee ea) = Returned False
      then t @ [Failure (got_want '' = '' L (iface ee) (iface ea))] else t)
   \<and> snd (ErrorIs_v2 L t ee ea) =
     (if fst (ErrorIs_v2 L t ee ea) = Returned False
      then t @ [Failure (got_want '' = '' L (iface ee) (iface ea))] else t)
   \<and> snd (NotEquals_v1 L t e a) =
     (if fst (NotEquals_v1 L t e a) = Returned False
      then t @ [Failure (got_want '' = '' L e a)] else t)
   \<and> snd (NotEquals_v2 L t e a opts) =
     (if fst (NotEquals_v2 L t e a opts) = Returned False
      then t @ [Failure (got_want '' != '' L e a)] else t)"
  unfolding Equals_v1_def Equals_v2_def ErrorIs_v1_def ErrorIs_v2_def Helper_def Let_def
  using msg_EqualsFunc_v1 msg_EqualsFunc_v2 msg_NotEquals_v1 msg_NotEquals_v2
  by presburger

theorem soft_failure_messages_witness:
  "Equals_v2 empty_messages [] (IntV 1) (IntV 2) [] =
     (Returned False, [Failure ''int = 2, want 1''])
   \<and> NotEquals_v1 empty_messages [] (IntV 1) (IntV 1) =
     (Returned False, [Failure ''int = 1, want 1''])
   \<and> NotEquals_v2 empty_messages [] (IntV 1) (IntV 1) [] =
     (Returned False, [Failure ''int != 1, want 1''])"
proof -
  have "fst (Equals_v2 empty_messages [] (IntV 1) (IntV 2) []) = Returned False"
    and "fst (NotEquals_v1 empty_messages [] (IntV 1) (IntV 1)) = Returned False"
    and "fst (NotEquals_v2 empty_messages [] (IntV 1) (IntV 1) []) = Returned False"
    by (simp_all add: Equals_v2_def EqualsFunc_v2_def NotEquals_v1_def NotEquals_v2_def
        Helper_def type_assert_def)
  then show ?thesis
    using soft_failure_messages [of empty_messages "[]" "IntV 1" "IntV 1" "[]"
        "\<lambda>x y. None" None None]
      soft_failure_messages [of empty_messages "[]" "IntV 1" "IntV 2" "[]"
        "\<lambda>x y. None" None None]
    by (simp add: prod_eq_iff got_want_def fmtT_def fmtV_def)
qed

section \<open>The reporting of a failing \<^verbatim>\<open>NotNil\<close>\<close>

lemma added_self: "added t t = Some []"
  by (simp add: added_def)

text \<open>
  C7. The claim is that a call whose assertion fails makes exactly one report to the sink,
  a record-and-halt for a hard assertion. Evaluated at \<^verbatim>\<open>NotNil(t, nil)\<close> and at
  \<^verbatim>\<open>NotNil(t, (*int)(nil))\<close>, calls of a hard assertion on values that are nil, both files
  add nothing to the sink and do not halt.
\<close>

theorem NotNil_nil_reports_nothing:
  "added t (snd (NotNil_v1 L a t NilV)) = Some []
   \<and> fst (NotNil_v1 L a t NilV) \<noteq> Halted
   \<and> added t (snd (NotNil_v2 L a t NilV)) = Some []
   \<and> fst (NotNil_v2 L a t NilV) \<noteq> Halted
   \<and> added t (snd (NotNil_v1 L a t (PtrV TInt None))) = Some []
   \<and> fst (NotNil_v1 L a t (PtrV TInt None)) \<noteq> Halted
   \<and> added t (snd (NotNil_v2 L a t (PtrV TInt None))) = Some []
   \<and> fst (NotNil_v2 L a t (PtrV TInt None)) \<noteq> Halted"
  by (simp add: NotNil_v1_returns NotNil_v2_returns added_self)

section \<open>\<^verbatim>\<open>NoError\<close> and \<^verbatim>\<open>Nil\<close>\<close>

text \<open>
  C9. \<^verbatim>\<open>NoError(t, err)\<close>, in both files, returns true and records nothing when \<open>err\<close> is
  the nil error, and only then; for every other \<open>err\<close> it returns false (the test goes on)
  and records exactly one, non-fatal, failure.
\<close>

theorem NoError_nil_only:
  "NoError_v1 L t err =
     (if err = None then (Returned True, t)
      else (Returned False, t @ [Failure (got_want '' = '' L NilV (iface err))]))
   \<and> NoError_v2 L t err = NoError_v1 L t err"
  by (cases err)
    (simp_all add: NoError_v1_def Equals_v1_def EqualsFunc_v1_def type_assert_def Errorf_def
      got_want_def NoError_v2_def Equals_v2_def EqualsFunc_v2_def Helper_def)

theorem NoError_nil_only_witness:
  "NoError_v2 empty_messages [] None = (Returned True, [])
   \<and> NoError_v2 empty_messages [] (Some (ErrorString 1 ''boom'')) =
       (Returned False, [Failure ''*errors.errorString = boom, want <nil>''])"
  using NoError_nil_only [of empty_messages "[]" None]
    NoError_nil_only [of empty_messages "[]" "Some (ErrorString 1 ''boom'')"]
  by (simp add: got_want_def fmtT_def fmtV_def err_type_def)

text \<open>
  C10. \<^verbatim>\<open>Nil(t, value)\<close>, in both files, returns true only for the nil interface. For every
  other value, and so for an interface that holds a nil pointer of any type, it returns
  false and records one failure.
\<close>

theorem Nil_nil_interface_only:
  "Nil_v1 L t v =
     (if v = NilV then (Returned True, t)
      else (Returned False, t @ [Failure (got_want '' = '' L NilV v)]))
   \<and> Nil_v2 L t v = Nil_v1 L t v
   \<and> Nil_v2 L t (PtrV ty None) =
       (Returned False, t @ [Failure (''*'' @ type_name ty @ '' = <nil>, want <nil>'')])"
  by (simp add: Nil_v1_def Equals_v1_def EqualsFunc_v1_def type_assert_def Errorf_def
      got_want_def Nil_v2_def Equals_v2_def EqualsFunc_v2_def Helper_def fmtT_def fmtV_def)

theorem Nil_nil_interface_only_witness:
  "Nil_v2 empty_messages [] NilV = (Returned True, [])
   \<and> Nil_v1 empty_messages [] (PtrV TInt None) =
       (Returned False, [Failure ''*int = <nil>, want <nil>''])
   \<and> Nil_v2 empty_messages [] (PtrV TInt None) =
       (Returned False, [Failure ''*int = <nil>, want <nil>''])"
  using Nil_nil_interface_only [of empty_messages "[]" NilV TInt]
    Nil_nil_interface_only [of empty_messages "[]" "PtrV TInt None" TInt]
  by (simp add: got_want_def fmtT_def fmtV_def)

end
